theory Spec2Isabelle
  imports Complex_Main
begin

section \<open>JavaScript numbers\<close>

text \<open>
  The class \<open>Spring\<close> computes with JavaScript numbers. A number is modelled as an exact
  real or one of the three special values of IEEE arithmetic. Every operation below gives
  the special value the JavaScript operation gives where the real operation is undefined
  (a division by zero, the square root of a negative number, \<open>Infinity - Infinity\<close>,
  \<open>0 * Infinity\<close>). Rounding, overflow and underflow of finite results are left out:
  a finite result is the exact real. Zero carries no sign (JavaScript's \<open>1 / -0\<close>
  is \<open>-Infinity\<close>; here a positive number divided by zero is \<open>Infinity\<close>).
\<close>

datatype jsnum = Num real | PInf | NInf | NaN

text \<open>The sign of a number that is not \<open>NaN\<close>.\<close>

fun jsgn :: "jsnum \<Rightarrow> int" where
  "jsgn (Num a) = (if a < 0 then - 1 else if a = 0 then 0 else 1)"
| "jsgn PInf = 1"
| "jsgn NInf = - 1"
| "jsgn NaN = 0"

definition of_sgn :: "int \<Rightarrow> jsnum" where
  "of_sgn s = (if s = 0 then NaN else if 0 < s then PInf else NInf)"

text \<open>Unary minus.\<close>

fun jneg :: "jsnum \<Rightarrow> jsnum" where
  "jneg (Num a) = Num (- a)"
| "jneg PInf = NInf"
| "jneg NInf = PInf"
| "jneg NaN = NaN"

text \<open>\<open>x + y\<close>\<close>

fun jadd :: "jsnum \<Rightarrow> jsnum \<Rightarrow> jsnum" where
  "jadd (Num a) (Num b) = Num (a + b)"
| "jadd NaN y = NaN"
| "jadd x NaN = NaN"
| "jadd PInf NInf = NaN"
| "jadd NInf PInf = NaN"
| "jadd PInf y = PInf"
| "jadd NInf y = NInf"
| "jadd (Num a) y = y"

text \<open>\<open>x - y\<close>\<close>

definition jsub :: "jsnum \<Rightarrow> jsnum \<Rightarrow> jsnum" where
  "jsub x y = jadd x (jneg y)"

text \<open>\<open>x * y\<close>: with an infinite factor the result is infinite with the product of the
  signs, and \<open>NaN\<close> when the other factor is zero.\<close>

fun jmul :: "jsnum \<Rightarrow> jsnum \<Rightarrow> jsnum" where
  "jmul (Num a) (Num b) = Num (a * b)"
| "jmul NaN y = NaN"
| "jmul x NaN = NaN"
| "jmul x y = of_sgn (jsgn x * jsgn y)"

text \<open>\<open>x / y\<close>\<close>

fun jdiv :: "jsnum \<Rightarrow> jsnum \<Rightarrow> jsnum" where
  "jdiv (Num a) (Num b) = (if b = 0 then of_sgn (jsgn (Num a)) else Num (a / b))"
| "jdiv NaN y = NaN"
| "jdiv x NaN = NaN"
| "jdiv (Num a) y = Num 0"
| "jdiv x (Num b) = (if b < 0 then jneg x else x)"
| "jdiv x y = NaN"

text \<open>\<open>Math.sqrt\<close>, \<open>Math.exp\<close>, \<open>Math.cos\<close>, \<open>Math.abs\<close>\<close>

fun jsqrt :: "jsnum \<Rightarrow> jsnum" where
  "jsqrt (Num a) = (if a < 0 then NaN else Num (sqrt a))"
| "jsqrt PInf = PInf"
| "jsqrt NInf = NaN"
| "jsqrt NaN = NaN"

fun jexp :: "jsnum \<Rightarrow> jsnum" where
  "jexp (Num a) = Num (exp a)"
| "jexp PInf = PInf"
| "jexp NInf = Num 0"
| "jexp NaN = NaN"

fun jcos :: "jsnum \<Rightarrow> jsnum" where
  "jcos (Num a) = Num (cos a)"
| "jcos x = NaN"

fun jabs :: "jsnum \<Rightarrow> jsnum" where
  "jabs (Num a) = Num \<bar>a\<bar>"
| "jabs PInf = PInf"
| "jabs NInf = PInf"
| "jabs NaN = NaN"

text \<open>\<open>Math.pow(x, 2)\<close>\<close>

fun jpow2 :: "jsnum \<Rightarrow> jsnum" where
  "jpow2 (Num a) = Num (a\<^sup>2)"
| "jpow2 PInf = PInf"
| "jpow2 NInf = PInf"
| "jpow2 NaN = NaN"

text \<open>The comparisons \<open>x < y\<close> and \<open>x <= y\<close>; \<open>x > y\<close> is \<open>jlt y x\<close> and
  \<open>x >= y\<close> is \<open>jle y x\<close>. A comparison with \<open>NaN\<close> is false.\<close>

fun jlt :: "jsnum \<Rightarrow> jsnum \<Rightarrow> bool" where
  "jlt (Num a) (Num b) = (a < b)"
| "jlt NaN y = False"
| "jlt x NaN = False"
| "jlt x NInf = False"
| "jlt PInf y = False"
| "jlt x y = True"

fun jle :: "jsnum \<Rightarrow> jsnum \<Rightarrow> bool" where
  "jle (Num a) (Num b) = (a \<le> b)"
| "jle NaN y = False"
| "jle x NaN = False"
| "jle NInf y = True"
| "jle x PInf = True"
| "jle x y = False"

text \<open>\<open>Math.min\<close> and \<open>Math.max\<close> of two numbers: \<open>NaN\<close> if either is.\<close>

fun jmin :: "jsnum \<Rightarrow> jsnum \<Rightarrow> jsnum" where
  "jmin NaN y = NaN"
| "jmin x NaN = NaN"
| "jmin x y = (if jle x y then x else y)"

fun jmax :: "jsnum \<Rightarrow> jsnum \<Rightarrow> jsnum" where
  "jmax NaN y = NaN"
| "jmax x NaN = NaN"
| "jmax x y = (if jle x y then y else x)"

text \<open>A number is falsy when it is zero or \<open>NaN\<close>. A property read is \<open>None\<close> when it
  gives \<open>undefined\<close>, which is falsy too. \<open>jor v d\<close> is \<open>v || d\<close>.\<close>

fun falsy :: "jsnum \<Rightarrow> bool" where
  "falsy (Num a) = (a = 0)"
| "falsy NaN = True"
| "falsy x = False"

fun jor :: "jsnum option \<Rightarrow> jsnum \<Rightarrow> jsnum" where
  "jor None d = d"
| "jor (Some x) d = (if falsy x then d else x)"

text \<open>\<open>undefined\<close> read as a number is \<open>NaN\<close>.\<close>

fun ToNumber :: "jsnum option \<Rightarrow> jsnum" where
  "ToNumber None = NaN"
| "ToNumber (Some x) = x"

section \<open>The class \<open>Spring\<close>\<close>

text \<open>
  An instance holds the physical model and the two display settings. The numeric fields
  hold the number each later read of the field sees: every read in the class is an
  arithmetic operation or a comparison, where \<open>undefined\<close> reads as \<open>NaN\<close>.
\<close>

record Spring =
  mass :: jsnum
  stiffness :: jsnum
  damping :: jsnum
  duration :: jsnum
  bounce :: jsnum
  properties :: "string list"
  useBezier :: bool

text \<open>
  The constructor's argument: a string, or an object. Of an object the model keeps the
  keys the constructor reads; a key is \<open>None\<close> when the object does not have it, and a
  numeric key that is present holds a number.
\<close>

record config_obj =
  cfg_mass :: "jsnum option"
  cfg_stiffness :: "jsnum option"
  cfg_damping :: "jsnum option"
  cfg_duration :: "jsnum option"
  cfg_bounce :: "jsnum option"
  cfg_properties :: "string list option"
  cfg_bezierAnimation :: "bool option"

datatype config = Str string | Obj config_obj

datatype error = UnknownPreset string

text \<open>The table \<open>Spring.PRESETS\<close>: its own keys, each with \<open>(duration, bounce)\<close>.\<close>

definition PRESETS :: "string \<Rightarrow> (jsnum \<times> jsnum) option" where
  "PRESETS =
     [''bouncy'' \<mapsto> (Num 0.7, Num 0.4),
      ''smooth'' \<mapsto> (Num 0.5, Num 0),
      ''flattened'' \<mapsto> (Num 0.4, Num (- 0.2))]"

text \<open>
  \<open>Spring.PRESETS\<close> is an object literal, so the read \<open>Spring.PRESETS[key]\<close> of a key
  the table does not have goes on to \<open>Object.prototype\<close>. These are the keys found
  there; each holds a function or an object, which is truthy and has neither a
  \<open>duration\<close> nor a \<open>bounce\<close> property, nor any enumerable property of its own.
\<close>

definition Object_prototype :: "string list" where
  "Object_prototype =
     [''constructor'', ''__proto__'', ''hasOwnProperty'', ''isPrototypeOf'',
      ''propertyIsEnumerable'', ''toLocaleString'', ''toString'', ''valueOf'',
      ''__defineGetter__'', ''__defineSetter__'', ''__lookupGetter__'',
      ''__lookupSetter__'']"

text \<open>
  The value of \<open>Spring.PRESETS[key]\<close>: \<open>None\<close> when it is \<open>undefined\<close>, otherwise the
  \<open>duration\<close> and \<open>bounce\<close> properties of the value found.
\<close>

definition PRESETS_get :: "string \<Rightarrow> (jsnum option \<times> jsnum option) option" where
  "PRESETS_get key =
     (case PRESETS key of
        Some (d, b) \<Rightarrow> Some (Some d, Some b)
      | None \<Rightarrow> if key \<in> set Object_prototype then Some (None, None) else None)"

text \<open>\<open>initFromDurationAndBounce({ duration, bounce })\<close>, on the instance \<open>this\<close>.\<close>

definition initFromDurationAndBounce ::
  "Spring \<Rightarrow> jsnum option \<times> jsnum option \<Rightarrow> Spring" where
  "initFromDurationAndBounce this arg =
     (let duration' = ToNumber (fst arg);
          bounce' = ToNumber (snd arg)
      in this\<lparr>duration := duration',
              bounce := bounce',
              mass := Num 1,
              stiffness := jpow2 (jdiv (jmul (Num 2) (Num pi)) duration'),
              damping :=
                (if jle (Num 0) bounce'
                 then jsub (Num 1) (jdiv (jmul (jmul (Num 4) (Num pi)) bounce') duration')
                 else jdiv (jmul (Num 4) (Num pi))
                        (jadd duration' (jmul (jmul (Num 4) (Num pi)) bounce')))\<rparr>)"

text \<open>\<open>calculateBounceFromDamping()\<close>\<close>

definition calculateBounceFromDamping :: "Spring \<Rightarrow> jsnum" where
  "calculateBounceFromDamping this =
     (let criticalDamping = jmul (Num 2) (jsqrt (jmul (mass this) (stiffness this)))
      in jdiv (jsub criticalDamping (damping this)) criticalDamping)"

text \<open>
  The instance before the constructor has assigned anything. Every path of the
  constructor assigns all seven fields, so none of these values is ever read.
\<close>

definition fresh :: Spring where
  "fresh = \<lparr>mass = NaN, stiffness = NaN, damping = NaN, duration = NaN, bounce = NaN,
             properties = [], useBezier = False\<rparr>"

text \<open>
  The two assignments that end the constructor. A string has neither a \<open>properties\<close>
  nor a \<open>bezierAnimation\<close> property, so for a string both reads are \<open>None\<close>.
\<close>

definition set_display :: "string list option \<Rightarrow> bool option \<Rightarrow> Spring \<Rightarrow> Spring" where
  "set_display ps bz this =
     this\<lparr>properties := (case ps of Some l \<Rightarrow> l | None \<Rightarrow> [''transform'']),
          useBezier := (case bz of Some b \<Rightarrow> b | None \<Rightarrow> False)\<rparr>"

text \<open>\<open>constructor(config = {})\<close>; the \<open>throw\<close> is the result \<open>Inl\<close>.\<close>

definition Spring_constructor :: "config \<Rightarrow> error + Spring" where
  "Spring_constructor config =
     (case config of
        Str name \<Rightarrow>
          (case PRESETS_get name of
             None \<Rightarrow> Inl (UnknownPreset name)
           | Some preset \<Rightarrow>
               Inr (set_display None None (initFromDurationAndBounce fresh preset)))
      | Obj c \<Rightarrow>
          if cfg_mass c \<noteq> None \<and> cfg_stiffness c \<noteq> None \<and> cfg_damping c \<noteq> None
          then
            (let this1 = fresh\<lparr>mass := ToNumber (cfg_mass c),
                               stiffness := ToNumber (cfg_stiffness c),
                               damping := ToNumber (cfg_damping c)\<rparr>;
                 this2 = this1\<lparr>duration :=
                           jdiv (jmul (Num 2) (Num pi))
                             (jsqrt (jdiv (stiffness this1) (mass this1)))\<rparr>;
                 this3 = this2\<lparr>bounce := calculateBounceFromDamping this2\<rparr>
             in Inr (set_display (cfg_properties c) (cfg_bezierAnimation c) this3))
          else
            Inr (set_display (cfg_properties c) (cfg_bezierAnimation c)
                  (initFromDurationAndBounce fresh
                     (Some (jor (cfg_duration c) (Num 0.5)),
                      Some (jmax (Num (- 1)) (jmin (Num 1) (jor (cfg_bounce c) (Num 0))))))))"

text \<open>The object \<open>{}\<close>, the constructor's default argument.\<close>

definition empty_config :: config_obj where
  "empty_config =
     \<lparr>cfg_mass = None, cfg_stiffness = None, cfg_damping = None, cfg_duration = None,
      cfg_bounce = None, cfg_properties = None, cfg_bezierAnimation = None\<rparr>"

text \<open>
  The static helpers. \<open>fromPreset\<close> spreads \<open>Spring.PRESETS[presetName]\<close> into an
  object: the two keys of a preset, and nothing for \<open>undefined\<close> or for a value found on
  \<open>Object.prototype\<close>.
\<close>

definition fromPreset :: "string \<Rightarrow> bool \<Rightarrow> error + Spring" where
  "fromPreset presetName useBezier' =
     Spring_constructor (Obj
       (case PRESETS presetName of
          Some (d, b) \<Rightarrow>
            empty_config\<lparr>cfg_duration := Some d, cfg_bounce := Some b,
                         cfg_bezierAnimation := Some useBezier'\<rparr>
        | None \<Rightarrow> empty_config\<lparr>cfg_bezierAnimation := Some useBezier'\<rparr>))"

definition fromPhysics :: "jsnum \<Rightarrow> jsnum \<Rightarrow> jsnum \<Rightarrow> bool \<Rightarrow> error + Spring" where
  "fromPhysics mass' stiffness' damping' useBezier' =
     Spring_constructor (Obj
       (empty_config\<lparr>cfg_mass := Some mass', cfg_stiffness := Some stiffness',
                     cfg_damping := Some damping',
                     cfg_bezierAnimation := Some useBezier'\<rparr>))"

definition fromDurationAndBounce :: "jsnum \<Rightarrow> jsnum \<Rightarrow> bool \<Rightarrow> error + Spring" where
  "fromDurationAndBounce duration' bounce' useBezier' =
     Spring_constructor (Obj
       (empty_config\<lparr>cfg_duration := Some duration', cfg_bounce := Some bounce',
                     cfg_bezierAnimation := Some useBezier'\<rparr>))"

text \<open>\<open>generateBezierPoints()\<close>: the array \<open>[x1, y1, x2, y2]\<close>.\<close>

definition generateBezierPoints :: "Spring \<Rightarrow> jsnum list" where
  "generateBezierPoints this =
     (if jle (bounce this) (Num 0)
      then
        (let x1 = jadd (Num 0.16) (jmul (Num 0.12) (jabs (bounce this)));
             y1 = Num 0;
             x2 = jadd (Num 0.28) (jmul (Num 0.12) (jabs (bounce this)));
             y2 = Num 1
         in [x1, y1, x2, y2])
      else
        (let overshoot = jmul (bounce this) (Num 0.2);
             x1 = Num 0.2;
             y1 = jadd (Num 0.2) overshoot;
             x2 = Num 0.8;
             y2 = jadd (Num 1) overshoot
         in [x1, y1, x2, y2]))"

text \<open>\<open>calculateSpringValue(t)\<close>\<close>

definition calculateSpringValue :: "Spring \<Rightarrow> jsnum \<Rightarrow> jsnum" where
  "calculateSpringValue this t =
     (let normalizedTime = jdiv t (duration this)
      in if jlt (Num 0) (bounce this)
         then
           (let omega = jsqrt (jdiv (stiffness this) (mass this));
                zeta = jdiv (damping this)
                         (jmul (Num 2) (jsqrt (jmul (mass this) (stiffness this))))
            in jmul (jexp (jmul (jmul (jneg zeta) omega) normalizedTime))
                 (jcos (jmul (jmul omega (jsqrt (jsub (Num 1) (jmul zeta zeta))))
                          normalizedTime)))
         else
           (let a = jadd (damping this)
                      (jsqrt (jsub (jmul (damping this) (damping this))
                                (jmul (Num 4) (stiffness this))));
                b = jsub (damping this)
                      (jsqrt (jsub (jmul (damping this) (damping this))
                                (jmul (Num 4) (stiffness this))))
            in jdiv (jadd (jexp (jmul (jneg a) normalizedTime))
                       (jexp (jmul (jneg b) normalizedTime)))
                 (Num 2)))"

section \<open>The class of \<open>springs.js\<close>\<close>

text \<open>
  The file \<open>springs.js\<close> holds an earlier class of the same name. Its constructor takes
  one object, gives each absent key its default, and then applies the preset the object
  names. Only the fields that \<open>applyPreset\<close> and the constructor write are modelled.
\<close>

record Spring0 =
  mass0 :: jsnum
  stiffness0 :: jsnum
  damping0 :: jsnum
  duration0 :: jsnum
  bounce0 :: jsnum

record config0 =
  cfg0_duration :: "jsnum option"
  cfg0_bounce :: "jsnum option"
  cfg0_mass :: "jsnum option"
  cfg0_stiffness :: "jsnum option"
  cfg0_damping :: "jsnum option"
  cfg0_preset :: "string option"

text \<open>\<open>toLowerCase()\<close> on a string of ASCII characters.\<close>

definition toLowerCase :: "string \<Rightarrow> string" where
  "toLowerCase s =
     map (\<lambda>c. if 65 \<le> (of_char c :: nat) \<and> (of_char c :: nat) \<le> 90
              then char_of ((of_char c :: nat) + 32) else c) s"

text \<open>The table \<open>presets\<close> of \<open>applyPreset\<close>: \<open>(bounce, stiffness, damping)\<close>.\<close>

definition presets :: "string \<Rightarrow> (jsnum \<times> jsnum \<times> jsnum) option" where
  "presets =
     [''bouncy'' \<mapsto> (Num 0.4, Num 200, Num 5),
      ''smooth'' \<mapsto> (Num 0, Num 100, Num 8),
      ''flattened'' \<mapsto> (Num (- 0.4), Num 80, Num 15)]"

text \<open>
  \<open>applyPreset(preset)\<close>. A key found on \<open>Object.prototype\<close> gives a truthy value
  without the three properties, and the three fields become \<open>undefined\<close>.
\<close>

definition applyPreset :: "Spring0 \<Rightarrow> string \<Rightarrow> Spring0" where
  "applyPreset this preset =
     (case presets (toLowerCase preset) of
        Some (b, s, d) \<Rightarrow> this\<lparr>bounce0 := b, stiffness0 := s, damping0 := d\<rparr>
      | None \<Rightarrow>
          if toLowerCase preset \<in> set Object_prototype
          then this\<lparr>bounce0 := NaN, stiffness0 := NaN, damping0 := NaN\<rparr>
          else this)"

text \<open>The constructor of \<open>springs.js\<close>; the empty string is falsy.\<close>

definition Spring0_constructor :: "config0 \<Rightarrow> Spring0" where
  "Spring0_constructor c =
     (let this = \<lparr>mass0 = (case cfg0_mass c of Some v \<Rightarrow> v | None \<Rightarrow> Num 1),
                  stiffness0 = (case cfg0_stiffness c of Some v \<Rightarrow> v | None \<Rightarrow> Num 100),
                  damping0 = (case cfg0_damping c of Some v \<Rightarrow> v | None \<Rightarrow> Num 10),
                  duration0 = (case cfg0_duration c of Some v \<Rightarrow> v | None \<Rightarrow> Num 0.5),
                  bounce0 = (case cfg0_bounce c of Some v \<Rightarrow> v | None \<Rightarrow> Num 0.2)\<rparr>
      in case cfg0_preset c of
           None \<Rightarrow> this
         | Some preset \<Rightarrow> if preset = [] then this else applyPreset this preset)"

section \<open>Numeric facts\<close>

text \<open>
  The partial sums of the arctangent series bound the arctangent from both sides;
  with Machin's formula they bound \<open>pi\<close>.
\<close>

lemma arctan_partial_sums:
  fixes x :: real
  assumes x: "0 \<le> x" "x \<le> 1"
  shows "(\<Sum>k<2 * n. (- 1) ^ k * (1 / real (k * 2 + 1) * x ^ (k * 2 + 1))) \<le> arctan x \<and>
         arctan x \<le> (\<Sum>k<2 * n + 1. (- 1) ^ k * (1 / real (k * 2 + 1) * x ^ (k * 2 + 1)))"
proof -
  define a where "a k = 1 / real (k * 2 + 1) * x ^ (k * 2 + 1)" for k
  have ax: "\<bar>x\<bar> \<le> 1" using x by simp
  have lim: "a \<longlonglongrightarrow> 0"
    using zeroseq_arctan_series [OF ax] by (simp add: a_def [abs_def])
  have nonneg: "0 \<le> a k" for k
    using x by (simp add: a_def)
  have decr: "a (Suc k) \<le> a k" for k
  proof -
    have "x ^ (Suc k * 2 + 1) \<le> x ^ (k * 2 + 1)"
      using x by (intro power_decreasing) simp_all
    moreover have "1 / real (Suc k * 2 + 1) \<le> 1 / real (k * 2 + 1)"
      by (simp add: field_simps)
    ultimately show ?thesis
      unfolding a_def using x by (intro mult_mono) simp_all
  qed
  have series: "arctan x = (\<Sum>k. (- 1) ^ k * a k)"
    using arctan_series [OF ax] by (simp add: a_def)
  have "(\<Sum>k<2 * n. (- 1) ^ k * a k) \<le> arctan x"
    unfolding series using lim nonneg decr by (rule summable_Leibniz'(2))
  moreover have "arctan x \<le> (\<Sum>k<2 * n + 1. (- 1) ^ k * a k)"
    unfolding series using lim nonneg decr by (rule summable_Leibniz'(4))
  ultimately show ?thesis by (simp add: a_def)
qed

lemma pi_bounds: "157 / 50 < pi" "pi < 1571 / 500"
proof -
  have m: "pi = 16 * arctan (1 / 5) - 4 * arctan (1 / 239)"
    using machin by simp
  have l5: "74 / 375 \<le> arctan (1 / 5)"
    using arctan_partial_sums [of "1 / 5" 1] by (simp add: eval_nat_numeral)
  have u5: "arctan (1 / 5) \<le> 74 / 375 + 1 / 15625"
    using arctan_partial_sums [of "1 / 5" 1] by (simp add: eval_nat_numeral)
  have l239: "1 / 239 - 1 / 40955757 \<le> arctan (1 / 239)"
    using arctan_partial_sums [of "1 / 239" 1] by (simp add: eval_nat_numeral)
  have u239: "arctan (1 / 239) \<le> 1 / 239"
    using arctan_partial_sums [of "1 / 239" 0] by simp
  show "157 / 50 < pi" unfolding m using l5 u239 by linarith
  show "pi < 1571 / 500" unfolding m using u5 l239 by linarith
qed

section \<open>The constructor, path by path\<close>

lemma ctor_else:
  assumes "cfg_mass c = None \<or> cfg_stiffness c = None \<or> cfg_damping c = None"
  shows "Spring_constructor (Obj c) =
     Inr (set_display (cfg_properties c) (cfg_bezierAnimation c)
           (initFromDurationAndBounce fresh
              (Some (jor (cfg_duration c) (Num 0.5)),
               Some (jmax (Num (- 1)) (jmin (Num 1) (jor (cfg_bounce c) (Num 0)))))))"
  using assms by (auto simp: Spring_constructor_def)

lemma init_fields:
  assumes "d \<noteq> 0"
  shows "initFromDurationAndBounce this (Some (Num d), Some (Num b)) =
     this\<lparr>duration := Num d, bounce := Num b, mass := Num 1,
          stiffness := Num ((2 * pi / d)\<^sup>2),
          damping :=
            (if 0 \<le> b then Num (1 - 4 * pi * b / d)
             else if d + 4 * pi * b = 0 then PInf
             else Num (4 * pi / (d + 4 * pi * b)))\<rparr>"
  using assms
  by (simp add: initFromDurationAndBounce_def Let_def jsub_def of_sgn_def)

lemma clamp_Num: "jmax (Num (- 1)) (jmin (Num 1) (Num b0)) = Num (max (- 1) (min 1 b0))"
  by (simp add: max_def min_def)

lemma ctor_physics:
  assumes "cfg_mass c = Some (Num M)" "cfg_stiffness c = Some (Num S)"
    "cfg_damping c = Some (Num D)" "0 < M" "0 < S"
  shows "Spring_constructor (Obj c) =
     Inr \<lparr>mass = Num M, stiffness = Num S, damping = Num D,
          duration = Num (2 * pi / sqrt (S / M)),
          bounce = Num ((2 * sqrt (M * S) - D) / (2 * sqrt (M * S))),
          properties = (case cfg_properties c of Some l \<Rightarrow> l | None \<Rightarrow> [''transform'']),
          useBezier = (case cfg_bezierAnimation c of Some b \<Rightarrow> b | None \<Rightarrow> False)\<rparr>"
proof -
  have ne: "M \<noteq> 0" "S \<noteq> 0" using assms by simp_all
  have nn: "\<not> S / M < 0" "\<not> M * S < 0" using assms by (simp_all add: not_less)
  show ?thesis
    using assms ne nn
    by (simp add: Spring_constructor_def calculateBounceFromDamping_def set_display_def
        fresh_def Let_def jsub_def)
qed

section \<open>The evaluator, regime by regime\<close>

lemma calc_under:
  assumes "mass this = Num M" "stiffness this = Num S" "damping this = Num D"
    "duration this = Num d" "bounce this = Num b"
    and "0 < M" "0 < S" "d \<noteq> 0" "0 < b"
  shows "calculateSpringValue this (Num t) =
     (if (D / (2 * sqrt (M * S)))\<^sup>2 \<le> 1
      then Num (exp (- (D / (2 * sqrt (M * S))) * sqrt (S / M) * (t / d)) *
             cos (sqrt (S / M) * sqrt (1 - (D / (2 * sqrt (M * S)))\<^sup>2) * (t / d)))
      else NaN)"
proof -
  have ne: "M \<noteq> 0" "S \<noteq> 0" using assms by simp_all
  have nn: "\<not> S / M < 0" "\<not> M * S < 0" using assms by (simp_all add: not_less)
  show ?thesis
    using assms ne nn
    by (simp add: calculateSpringValue_def Let_def jsub_def power2_eq_square not_le
        real_sqrt_mult)
qed

lemma calc_over:
  assumes "damping this = Num D" "stiffness this = Num S"
    "duration this = Num d" "bounce this = Num b"
    and "d \<noteq> 0" "b \<le> 0"
  shows "calculateSpringValue this (Num t) =
     (if 4 * S \<le> D\<^sup>2
      then Num ((exp (- (D + sqrt (D\<^sup>2 - 4 * S)) * (t / d)) +
                 exp (- (D - sqrt (D\<^sup>2 - 4 * S)) * (t / d))) / 2)
      else NaN)"
  using assms
  by (simp add: calculateSpringValue_def Let_def jsub_def power2_eq_square not_le)

section \<open>The formulas of the evaluator\<close>

text \<open>
  C1. For a model with positive mass, stiffness and duration and for an elapsed time
  \<open>t \<ge> 0\<close>, \<open>calculateSpringValue\<close> first divides the time by the duration and then
  chooses the formula by the sign of \<open>bounce\<close>. For \<open>bounce > 0\<close> the result is
  \<open>exp (- \<zeta> \<omega> t') * cos (\<omega> * sqrt (1 - \<zeta>\<^sup>2) * t')\<close> with \<open>\<omega> = sqrt (stiffness / mass)\<close> and
  \<open>\<zeta> = damping / (2 * sqrt (mass * stiffness))\<close>; for \<open>bounce \<le> 0\<close> it is
  \<open>(exp (- a t') + exp (- b t')) / 2\<close> with \<open>a, b = damping \<plusminus> sqrt (damping\<^sup>2 - 4 * stiffness)\<close>.
  Where the argument of the inner square root is negative the formula has no real value,
  and the result is \<open>NaN\<close>.
\<close>

theorem calculateSpringValue_regimes:
  assumes "mass this = Num M" "stiffness this = Num S" "damping this = Num D"
    "duration this = Num d" "bounce this = Num b"
    and "0 < M" "0 < S" "0 < d" "0 \<le> t"
  shows "calculateSpringValue this (Num t) =
     (let t' = t / d in
      if 0 < b
      then (let \<omega> = sqrt (S / M); \<zeta> = D / (2 * sqrt (M * S))
            in if \<zeta>\<^sup>2 \<le> 1
               then Num (exp (- \<zeta> * \<omega> * t') * cos (\<omega> * sqrt (1 - \<zeta>\<^sup>2) * t'))
               else NaN)
      else (let a = D + sqrt (D\<^sup>2 - 4 * S); b' = D - sqrt (D\<^sup>2 - 4 * S)
            in if 4 * S \<le> D\<^sup>2
               then Num ((exp (- a * t') + exp (- b' * t')) / 2)
               else NaN))"
proof (cases "0 < b")
  case True
  have "d \<noteq> 0" using assms by simp
  from calc_under [OF assms(1-7) this True] True show ?thesis
    by (simp add: Let_def)
next
  case False
  have "d \<noteq> 0" "b \<le> 0" using assms False by simp_all
  from calc_over [OF assms(3) assms(2) assms(4) assms(5) this] False show ?thesis
    by (simp add: Let_def)
qed

text \<open>Both regimes at concrete models: a critically damped one at \<open>t = 1\<close> and an undamped
  one at \<open>t = pi\<close>.\<close>

theorem calculateSpringValue_regimes_witness:
  "calculateSpringValue
     \<lparr>mass = Num 1, stiffness = Num 1, damping = Num 2, duration = Num 1, bounce = Num 0,
      properties = [''transform''], useBezier = False\<rparr> (Num 1) = Num (exp (- 2)) \<and>
   calculateSpringValue
     \<lparr>mass = Num 1, stiffness = Num 1, damping = Num 0, duration = Num 1, bounce = Num (1 / 2),
      properties = [''transform''], useBezier = False\<rparr> (Num pi) = Num (- 1)"
  using
    calculateSpringValue_regimes [of "\<lparr>mass = Num 1, stiffness = Num 1, damping = Num 2,
      duration = Num 1, bounce = Num 0, properties = [''transform''], useBezier = False\<rparr>"
      1 1 2 1 0 1]
    calculateSpringValue_regimes [of "\<lparr>mass = Num 1, stiffness = Num 1, damping = Num 0,
      duration = Num 1, bounce = Num (1 / 2), properties = [''transform''], useBezier = False\<rparr>"
      1 1 0 1 "1 / 2" pi]
  by (simp add: Let_def)

section \<open>The duration and bounce path\<close>

text \<open>
  C2. On the duration and bounce path (the object lacks one of \<open>mass\<close>, \<open>stiffness\<close>,
  \<open>damping\<close>), with a duration \<open>d > 0\<close> and the bounce \<open>b\<close> clamped to \<open>[-1, 1]\<close>, the
  model has \<open>mass = 1\<close>, \<open>stiffness = (2 pi / d)\<^sup>2\<close>, and \<open>damping = 1 - 4 pi b / d\<close> for
  \<open>b \<ge> 0\<close>, \<open>damping = 4 pi / (d + 4 pi b)\<close> for \<open>b < 0\<close>. Where that last denominator is
  zero the quotient is JavaScript's \<open>Infinity\<close>.
\<close>

theorem duration_bounce_path:
  assumes path: "cfg_mass c = None \<or> cfg_stiffness c = None \<or> cfg_damping c = None"
    and d: "jor (cfg_duration c) (Num 0.5) = Num d" "0 < d"
    and b0: "jor (cfg_bounce c) (Num 0) = Num b0"
    and b: "b = max (- 1) (min 1 b0)"
  shows "\<exists>this. Spring_constructor (Obj c) = Inr this \<and>
           duration this = Num d \<and> bounce this = Num b \<and>
           mass this = Num 1 \<and>
           stiffness this = Num ((2 * pi / d)\<^sup>2) \<and>
           damping this =
             (if 0 \<le> b then Num (1 - 4 * pi * b / d)
              else if d + 4 * pi * b = 0 then PInf
              else Num (4 * pi / (d + 4 * pi * b)))"
proof -
  have "d \<noteq> 0" using d by simp
  then show ?thesis
    unfolding ctor_else [OF path] d(1) b0 clamp_Num b
    by (simp add: init_fields set_display_def)
qed

text \<open>The path at \<open>{duration: 2, bounce: 5}\<close>, where the bounce is clamped to 1, and at
  \<open>{duration: 0.4, bounce: -0.2}\<close>.\<close>

theorem duration_bounce_path_witness:
  "(\<exists>this. Spring_constructor
      (Obj (empty_config\<lparr>cfg_duration := Some (Num 2), cfg_bounce := Some (Num 5)\<rparr>)) = Inr this \<and>
      duration this = Num 2 \<and> bounce this = Num 1 \<and> mass this = Num 1 \<and>
      stiffness this = Num (pi\<^sup>2) \<and> damping this = Num (1 - 2 * pi)) \<and>
   (\<exists>this. Spring_constructor
      (Obj (empty_config\<lparr>cfg_duration := Some (Num 0.4), cfg_bounce := Some (Num (- 0.2))\<rparr>)) = Inr this \<and>
      duration this = Num 0.4 \<and> bounce this = Num (- 0.2) \<and> mass this = Num 1 \<and>
      stiffness this = Num ((5 * pi)\<^sup>2) \<and> damping this = Num (4 * pi / (0.4 - 0.8 * pi)))"
proof -
  have ne: "2 * pi \<noteq> 1" using pi_ge_two by linarith
  show ?thesis
    using ne
      duration_bounce_path [of "empty_config\<lparr>cfg_duration := Some (Num 2), cfg_bounce := Some (Num 5)\<rparr>"
        2 5 1]
      duration_bounce_path [of "empty_config\<lparr>cfg_duration := Some (Num 0.4), cfg_bounce := Some (Num (- 0.2))\<rparr>"
        "0.4" "- 0.2" "- 0.2"]
    by (simp add: empty_config_def)
qed

section \<open>The bezier approximation\<close>

text \<open>
  C6. \<open>generateBezierPoints\<close> depends on \<open>bounce\<close> alone: two models with the same bounce
  give the same control points, whatever their other fields. For \<open>bounce \<le> 0\<close> the
  points are \<open>(0.16 + 0.12 |bounce|, 0, 0.28 + 0.12 |bounce|, 1)\<close>; for \<open>bounce > 0\<close>, with
  \<open>overshoot = bounce * 0.2\<close>, they are \<open>(0.2, 0.2 + overshoot, 0.8, 1 + overshoot)\<close>.
\<close>

theorem generateBezierPoints_of_bounce:
  "(bounce s1 = bounce s2 \<longrightarrow> generateBezierPoints s1 = generateBezierPoints s2) \<and>
   (bounce s1 = Num b \<longrightarrow>
      generateBezierPoints s1 =
        (if b \<le> 0
         then [Num (0.16 + 0.12 * \<bar>b\<bar>), Num 0, Num (0.28 + 0.12 * \<bar>b\<bar>), Num 1]
         else [Num 0.2, Num (0.2 + b * 0.2), Num 0.8, Num (1 + b * 0.2)]))"
  by (simp add: generateBezierPoints_def Let_def)

text \<open>Two models that share only \<open>bounce = -0.2\<close>: both give \<open>(0.184, 0, 0.304, 1)\<close>.\<close>

theorem generateBezierPoints_of_bounce_witness:
  "generateBezierPoints
     \<lparr>mass = Num 1, stiffness = Num 100, damping = Num 24, duration = Num 2,
      bounce = Num (- 0.2), properties = [], useBezier = True\<rparr> =
   generateBezierPoints
     \<lparr>mass = Num 3, stiffness = Num 7, damping = Num 1, duration = Num 0.4,
      bounce = Num (- 0.2), properties = [], useBezier = True\<rparr> \<and>
   generateBezierPoints
     \<lparr>mass = Num 1, stiffness = Num 100, damping = Num 24, duration = Num 2,
      bounce = Num (- 0.2), properties = [], useBezier = True\<rparr> =
     [Num 0.184, Num 0, Num 0.304, Num 1]"
  using generateBezierPoints_of_bounce [of
     "\<lparr>mass = Num 1, stiffness = Num 100, damping = Num 24, duration = Num 2,
      bounce = Num (- 0.2), properties = [], useBezier = True\<rparr>"
     "\<lparr>mass = Num 3, stiffness = Num 7, damping = Num 1, duration = Num 0.4,
      bounce = Num (- 0.2), properties = [], useBezier = True\<rparr>" "- 0.2"]
  by auto

section \<open>Partial physical parameters, and the physical path\<close>

text \<open>
  C10. An object that has only some of the keys \<open>mass\<close>, \<open>stiffness\<close>, \<open>damping\<close>, and
  neither \<open>duration\<close> nor \<open>bounce\<close>, raises no error: the constructor takes the duration
  and bounce path with the defaults \<open>0.5\<close> and \<open>0\<close> and never reads the physical values
  given, so the stiffness is \<open>(2 pi / 0.5)\<^sup>2\<close> whatever stiffness the object holds.
\<close>

theorem partial_physics_ignored:
  assumes "cfg_mass c = None \<or> cfg_stiffness c = None \<or> cfg_damping c = None"
    and "cfg_duration c = None" "cfg_bounce c = None"
  shows "\<exists>this. Spring_constructor (Obj c) = Inr this \<and>
           duration this = Num 0.5 \<and> bounce this = Num 0 \<and> mass this = Num 1 \<and>
           stiffness this = Num ((2 * pi / 0.5)\<^sup>2) \<and> damping this = Num 1"
  unfolding ctor_else [OF assms(1)] assms(2,3)
  by (simp add: init_fields set_display_def)

text \<open>The object \<open>{stiffness: 7}\<close>.\<close>

theorem partial_physics_ignored_witness:
  "\<exists>this. Spring_constructor (Obj (empty_config\<lparr>cfg_stiffness := Some (Num 7)\<rparr>)) = Inr this \<and>
     duration this = Num 0.5 \<and> bounce this = Num 0 \<and> mass this = Num 1 \<and>
     stiffness this = Num ((2 * pi / 0.5)\<^sup>2) \<and> damping this = Num 1"
  using partial_physics_ignored [of "empty_config\<lparr>cfg_stiffness := Some (Num 7)\<rparr>"]
  by (simp add: empty_config_def)


text \<open>
  C8. For an object with \<open>mass\<close>, \<open>stiffness\<close> and \<open>damping\<close>, mass and stiffness
  positive, the model has \<open>duration = 2 pi / sqrt (stiffness / mass)\<close> and
  \<open>bounce = (criticalDamping - damping) / criticalDamping\<close> with
  \<open>criticalDamping = 2 * sqrt (mass * stiffness)\<close>. For \<open>{mass: 1, stiffness: 100,
  damping: 10}\<close> the duration is \<open>pi / 5\<close>, within \<open>0.001\<close> of \<open>0.628\<close>, and the bounce is
  \<open>1 / 2\<close>, which lies in \<open>[-1, 1]\<close>.
\<close>

theorem physics_path:
  assumes "cfg_mass c = Some (Num M)" "cfg_stiffness c = Some (Num S)"
    "cfg_damping c = Some (Num D)" "0 < M" "0 < S"
  shows "(\<exists>this. Spring_constructor (Obj c) = Inr this \<and>
            mass this = Num M \<and> stiffness this = Num S \<and> damping this = Num D \<and>
            duration this = Num (2 * pi / sqrt (S / M)) \<and>
            (let criticalDamping = 2 * sqrt (M * S)
             in bounce this = Num ((criticalDamping - D) / criticalDamping))) \<and>
         fromPhysics (Num 1) (Num 100) (Num 10) False =
           Inr \<lparr>mass = Num 1, stiffness = Num 100, damping = Num 10,
                duration = Num (pi / 5), bounce = Num (1 / 2),
                properties = [''transform''], useBezier = False\<rparr> \<and>
         \<bar>pi / 5 - 0.628\<bar> < 0.001"
proof -
  have "fromPhysics (Num 1) (Num 100) (Num 10) False =
      Inr \<lparr>mass = Num 1, stiffness = Num 100, damping = Num 10,
           duration = Num (pi / 5), bounce = Num (1 / 2),
           properties = [''transform''], useBezier = False\<rparr>"
    unfolding fromPhysics_def
    by (subst ctor_physics [of _ 1 100 10]) (simp_all add: empty_config_def)
  moreover have "\<bar>pi / 5 - 0.628\<bar> < 0.001"
    using pi_bounds by simp
  ultimately show ?thesis
    using ctor_physics [OF assms] by (simp add: Let_def)
qed

text \<open>The object \<open>{mass: 1, stiffness: 4, damping: 1}\<close>.\<close>

theorem physics_path_witness:
  "\<exists>this. Spring_constructor
      (Obj (empty_config\<lparr>cfg_mass := Some (Num 1), cfg_stiffness := Some (Num 4),
                         cfg_damping := Some (Num 1)\<rparr>)) = Inr this \<and>
     mass this = Num 1 \<and> stiffness this = Num 4 \<and> damping this = Num 1 \<and>
     duration this = Num pi \<and> bounce this = Num (3 / 4)"
  using physics_path [of "empty_config\<lparr>cfg_mass := Some (Num 1), cfg_stiffness := Some (Num 4),
                         cfg_damping := Some (Num 1)\<rparr>" 1 4 1]
  by (simp add: empty_config_def Let_def)

section \<open>The presets\<close>

lemma ctor_preset:
  assumes "PRESETS name = Some (Num d, Num b)" "d \<noteq> 0"
  shows "Spring_constructor (Str name) =
     Inr (set_display None None (initFromDurationAndBounce fresh (Some (Num d), Some (Num b))))"
  using assms by (simp add: Spring_constructor_def PRESETS_get_def)

lemma smooth_model:
  "Spring_constructor (Str ''smooth'') =
     Inr \<lparr>mass = Num 1, stiffness = Num ((4 * pi)\<^sup>2), damping = Num 1, duration = Num 0.5,
          bounce = Num 0, properties = [''transform''], useBezier = False\<rparr>"
  by (subst ctor_preset [of _ "0.5" 0])
     (simp_all add: PRESETS_def init_fields set_display_def fresh_def)

lemma bouncy_model:
  "Spring_constructor (Str ''bouncy'') =
     Inr \<lparr>mass = Num 1, stiffness = Num ((20 * pi / 7)\<^sup>2), damping = Num (1 - 16 * pi / 7),
          duration = Num 0.7, bounce = Num 0.4, properties = [''transform''],
          useBezier = False\<rparr>"
  by (subst ctor_preset [of _ "0.7" "0.4"])
     (simp_all add: PRESETS_def init_fields set_display_def fresh_def)

lemma flattened_model:
  "Spring_constructor (Str ''flattened'') =
     Inr \<lparr>mass = Num 1, stiffness = Num ((5 * pi)\<^sup>2), damping = Num (10 * pi / (1 - 2 * pi)),
          duration = Num 0.4, bounce = Num (- 0.2), properties = [''transform''],
          useBezier = False\<rparr>"
proof -
  have ne: "2 * pi \<noteq> 1" using pi_ge_two by linarith
  have "4 * pi / (2 / 5 - 4 * pi / 5) = 10 * pi / (1 - 2 * pi)"
    using ne by (simp add: field_simps)
  then show ?thesis
    using ne
    by (subst ctor_preset [of _ "0.4" "- 0.2"])
       (simp_all add: PRESETS_def init_fields set_display_def fresh_def)
qed

text \<open>The three presets give their \<open>(duration, bounce)\<close> pair with \<open>mass = 1\<close>, and the
  name \<open>giggly\<close> is refused.\<close>

lemma known_presets:
  "\<exists>this. Spring_constructor (Str ''bouncy'') = Inr this \<and>
     duration this = Num 0.7 \<and> bounce this = Num 0.4 \<and> mass this = Num 1"
  "\<exists>this. Spring_constructor (Str ''smooth'') = Inr this \<and>
     duration this = Num 0.5 \<and> bounce this = Num 0 \<and> mass this = Num 1"
  "\<exists>this. Spring_constructor (Str ''flattened'') = Inr this \<and>
     duration this = Num 0.4 \<and> bounce this = Num (- 0.2) \<and> mass this = Num 1"
  "Spring_constructor (Str ''giggly'') = Inl (UnknownPreset ''giggly'')"
  unfolding bouncy_model smooth_model flattened_model
  by (simp_all add: Spring_constructor_def PRESETS_get_def PRESETS_def Object_prototype_def)

text \<open>A name that is neither a key of the table nor a key of \<open>Object.prototype\<close> is
  refused.\<close>

lemma unknown_preset_throws:
  assumes "PRESETS name = None" "name \<notin> set Object_prototype"
  shows "Spring_constructor (Str name) = Inl (UnknownPreset name)"
  using assms by (simp add: Spring_constructor_def PRESETS_get_def)

text \<open>
  The class of \<open>springs.js\<close> has another table and no error: \<open>bouncy\<close> sets bounce,
  stiffness and damping and leaves the duration at its default, and an unknown name
  leaves the instance as the defaults made it.
\<close>

lemma springs_js_presets:
  "Spring0_constructor \<lparr>cfg0_duration = None, cfg0_bounce = None, cfg0_mass = None,
      cfg0_stiffness = None, cfg0_damping = None, cfg0_preset = Some ''bouncy''\<rparr> =
     \<lparr>mass0 = Num 1, stiffness0 = Num 200, damping0 = Num 5, duration0 = Num 0.5,
      bounce0 = Num 0.4\<rparr>"
  "Spring0_constructor \<lparr>cfg0_duration = None, cfg0_bounce = None, cfg0_mass = None,
      cfg0_stiffness = None, cfg0_damping = None, cfg0_preset = Some ''giggly''\<rparr> =
     \<lparr>mass0 = Num 1, stiffness0 = Num 100, damping0 = Num 10, duration0 = Num 0.5,
      bounce0 = Num 0.2\<rparr>"
  by (simp_all add: Spring0_constructor_def applyPreset_def presets_def toLowerCase_def
      Object_prototype_def)

text \<open>
  C7. Resolving \<open>bouncy\<close> gives duration \<open>0.7\<close>, bounce \<open>0.4\<close> and mass \<open>1\<close>, and an
  unknown preset name is to fail with an error (\<open>known_presets\<close> above has both, for
  \<open>giggly\<close>). The constructor tests \<open>Spring.PRESETS[config]\<close> for truthiness, so a name
  that \<open>Object.prototype\<close> has, such as \<open>constructor\<close>, is not a preset and yet raises
  no error: the constructor returns an instance whose duration, bounce, stiffness and
  damping are not numbers. The static helper \<open>fromPreset\<close> raises no error for any
  unknown name: for \<open>giggly\<close> it returns the default model.
\<close>

theorem inherited_key_no_error:
  "PRESETS ''constructor'' = None \<and>
   Spring_constructor (Str ''constructor'') =
     Inr \<lparr>mass = Num 1, stiffness = NaN, damping = NaN, duration = NaN, bounce = NaN,
          properties = [''transform''], useBezier = False\<rparr> \<and>
   fromPreset ''giggly'' False =
     Inr \<lparr>mass = Num 1, stiffness = Num ((4 * pi)\<^sup>2), damping = Num 1, duration = Num 0.5,
          bounce = Num 0, properties = [''transform''], useBezier = False\<rparr>"
proof -
  have "PRESETS ''constructor'' = None" "PRESETS ''giggly'' = None"
    by (simp_all add: PRESETS_def)
  moreover have "Spring_constructor (Str ''constructor'') =
     Inr \<lparr>mass = Num 1, stiffness = NaN, damping = NaN, duration = NaN, bounce = NaN,
          properties = [''transform''], useBezier = False\<rparr>"
    by (simp add: Spring_constructor_def PRESETS_get_def PRESETS_def Object_prototype_def
        initFromDurationAndBounce_def set_display_def fresh_def Let_def jsub_def)
  moreover have "fromPreset ''giggly'' False =
     Inr \<lparr>mass = Num 1, stiffness = Num ((4 * pi)\<^sup>2), damping = Num 1, duration = Num 0.5,
          bounce = Num 0, properties = [''transform''], useBezier = False\<rparr>"
    unfolding fromPreset_def calculation(2)
    by (subst ctor_else) (simp_all add: empty_config_def init_fields set_display_def fresh_def)
  ultimately show ?thesis by simp
qed

section \<open>The range of \<open>bounce\<close>\<close>

text \<open>On the duration and bounce path the bounce is clamped, whatever number the object
  holds.\<close>

lemma else_path_bounce_clamped:
  assumes "cfg_mass c = None \<or> cfg_stiffness c = None \<or> cfg_damping c = None"
  shows "\<exists>this. Spring_constructor (Obj c) = Inr this \<and>
           jle (Num (- 1)) (bounce this) \<and> jle (bounce this) (Num 1)"
proof -
  have "jle (Num (- 1)) (jmax (Num (- 1)) (jmin (Num 1) (jor v (Num 0)))) \<and>
        jle (jmax (Num (- 1)) (jmin (Num 1) (jor v (Num 0)))) (Num 1)" for v
  proof (cases v)
    case None
    then show ?thesis by simp
  next
    case (Some x)
    then show ?thesis by (cases x) auto
  qed
  then show ?thesis
    unfolding ctor_else [OF assms]
    by (simp add: initFromDurationAndBounce_def set_display_def Let_def)
qed

text \<open>
  C9. Every model the constructor returns is to have its bounce in \<open>[-1, 1]\<close>. The
  physical path stores what \<open>calculateBounceFromDamping\<close> returns without clamping it:
  \<open>{mass: 1, stiffness: 100, damping: 50}\<close> has critical damping \<open>20\<close> and bounce
  \<open>(20 - 50) / 20 = -1.5\<close>.
\<close>

theorem physics_bounce_unclamped:
  "fromPhysics (Num 1) (Num 100) (Num 50) False =
     Inr \<lparr>mass = Num 1, stiffness = Num 100, damping = Num 50, duration = Num (pi / 5),
          bounce = Num (- 1.5), properties = [''transform''], useBezier = False\<rparr> \<and>
   \<not> jle (Num (- 1)) (Num (- 1.5))"
  unfolding fromPhysics_def
  by (subst ctor_physics [of _ 1 100 50]) (simp_all add: empty_config_def)

section \<open>The value at time zero\<close>

text \<open>Where no square root is taken of a negative number, the value at \<open>t = 0\<close> is
  \<open>1\<close> in both regimes.\<close>

lemma initial_value_one:
  assumes "mass this = Num M" "stiffness this = Num S" "damping this = Num D"
    "duration this = Num d" "bounce this = Num b"
    and "0 < M" "0 < S" "d \<noteq> 0"
    and "if 0 < b then (D / (2 * sqrt (M * S)))\<^sup>2 \<le> 1 else 4 * S \<le> D\<^sup>2"
  shows "calculateSpringValue this (Num 0) = Num 1"
proof (cases "0 < b")
  case True
  from calc_under [OF assms(1-8) True, of 0] assms(9) True show ?thesis by simp
next
  case False
  then have "b \<le> 0" by simp
  from calc_over [OF assms(3) assms(2) assms(4) assms(5) assms(8) this, of 0] assms(9) False
  show ?thesis by simp
qed

text \<open>
  C4. Evaluating a validly constructed model at elapsed time \<open>0\<close> is to give exactly
  \<open>1\<close> in both regimes. The preset \<open>smooth\<close>, which is also the model of \<open>new Spring()\<close>,
  has bounce \<open>0\<close>, damping \<open>1\<close> and stiffness \<open>(4 pi)\<^sup>2\<close>; the regime for \<open>bounce \<le> 0\<close>
  takes the square root of \<open>1 - 4 * (4 pi)\<^sup>2 < 0\<close>, and the value at time \<open>0\<close> is \<open>NaN\<close>.
\<close>

theorem smooth_initial_value_NaN:
  "Spring_constructor (Str ''smooth'') =
     Inr \<lparr>mass = Num 1, stiffness = Num ((4 * pi)\<^sup>2), damping = Num 1, duration = Num 0.5,
          bounce = Num 0, properties = [''transform''], useBezier = False\<rparr> \<and>
   Spring_constructor (Obj empty_config) =
     Inr \<lparr>mass = Num 1, stiffness = Num ((4 * pi)\<^sup>2), damping = Num 1, duration = Num 0.5,
          bounce = Num 0, properties = [''transform''], useBezier = False\<rparr> \<and>
   calculateSpringValue
     \<lparr>mass = Num 1, stiffness = Num ((4 * pi)\<^sup>2), damping = Num 1, duration = Num 0.5,
      bounce = Num 0, properties = [''transform''], useBezier = False\<rparr> (Num 0) = NaN"
proof -
  have "(1::real) < 4 * (4 * pi)\<^sup>2"
  proof -
    have "2 * 2 \<le> pi * pi" using pi_ge_two by (intro mult_mono) simp_all
    then show ?thesis by (simp add: power2_eq_square)
  qed
  then have "calculateSpringValue
     \<lparr>mass = Num 1, stiffness = Num ((4 * pi)\<^sup>2), damping = Num 1, duration = Num 0.5,
      bounce = Num 0, properties = [''transform''], useBezier = False\<rparr> (Num 0) = NaN"
    by (subst calc_over [of _ 1 "(4 * pi)\<^sup>2" "0.5" 0]) simp_all
  moreover have "Spring_constructor (Obj empty_config) =
     Inr \<lparr>mass = Num 1, stiffness = Num ((4 * pi)\<^sup>2), damping = Num 1, duration = Num 0.5,
          bounce = Num 0, properties = [''transform''], useBezier = False\<rparr>"
    by (subst ctor_else) (simp_all add: empty_config_def init_fields set_display_def fresh_def)
  ultimately show ?thesis using smooth_model by simp
qed

section \<open>The two derivations, one after the other\<close>

text \<open>
  C3. For a model built from \<open>(mass = 1, stiffness = S, damping = D)\<close>, deriving
  \<open>(duration, bounce)\<close> and deriving stiffness and damping again from them is to give
  \<open>S\<close> and \<open>D\<close> back within a relative error of one millionth, and a model built from
  \<open>(duration, bounce)\<close> is to get its duration and bounce back from its own physical
  parameters. The physical path is written as the inverse of the other one: the duration
  and the stiffness come back exactly, and \<open>calculateBounceFromDamping\<close> has
  \<open>bounce = 1 - damping / criticalDamping\<close>. The line
  \<open>damping = 1 - 4 pi bounce / duration\<close> of \<open>initFromDurationAndBounce\<close> is not the
  inverse of that. \<open>Spring.fromPhysics(1, 100, 10)\<close> has the duration \<open>pi / 5\<close> and the
  bounce \<open>1 / 2\<close>, and \<open>Spring.fromDurationAndBounce(pi / 5, 1 / 2)\<close> has the stiffness
  \<open>100\<close> again but the damping \<open>-9\<close>. The preset \<open>bouncy\<close>, with duration \<open>0.7\<close> and
  bounce \<open>0.4\<close>, rebuilt by \<open>fromPhysics\<close> from its own mass, stiffness and damping, has
  the duration \<open>0.7\<close> again but the bounce \<open>7 / 5 - 7 / (40 pi)\<close>, which is above \<open>1\<close>.
\<close>

theorem roundtrip_damping_not_recovered:
  "fromPhysics (Num 1) (Num 100) (Num 10) False =
     Inr \<lparr>mass = Num 1, stiffness = Num 100, damping = Num 10, duration = Num (pi / 5),
          bounce = Num (1 / 2), properties = [''transform''], useBezier = False\<rparr> \<and>
   fromDurationAndBounce (Num (pi / 5)) (Num (1 / 2)) False =
     Inr \<lparr>mass = Num 1, stiffness = Num 100, damping = Num (- 9), duration = Num (pi / 5),
          bounce = Num (1 / 2), properties = [''transform''], useBezier = False\<rparr> \<and>
   \<not> \<bar>(- 9) - (10::real)\<bar> \<le> 1 / 1000000 * \<bar>10\<bar> \<and>
   Spring_constructor (Str ''bouncy'') =
     Inr \<lparr>mass = Num 1, stiffness = Num ((20 * pi / 7)\<^sup>2), damping = Num (1 - 16 * pi / 7),
          duration = Num 0.7, bounce = Num 0.4, properties = [''transform''],
          useBezier = False\<rparr> \<and>
   fromPhysics (Num 1) (Num ((20 * pi / 7)\<^sup>2)) (Num (1 - 16 * pi / 7)) False =
     Inr \<lparr>mass = Num 1, stiffness = Num ((20 * pi / 7)\<^sup>2), damping = Num (1 - 16 * pi / 7),
          duration = Num 0.7, bounce = Num (7 / 5 - 7 / (40 * pi)),
          properties = [''transform''], useBezier = False\<rparr> \<and>
   1 < 7 / 5 - 7 / (40 * pi)"
proof -
  have p2: "2 \<le> pi" by (rule pi_ge_two)
  have derived: "fromPhysics (Num 1) (Num 100) (Num 10) False =
     Inr \<lparr>mass = Num 1, stiffness = Num 100, damping = Num 10, duration = Num (pi / 5),
          bounce = Num (1 / 2), properties = [''transform''], useBezier = False\<rparr>"
    unfolding fromPhysics_def
    by (subst ctor_physics [of _ 1 100 10]) (simp_all add: empty_config_def)
  have rederived: "fromDurationAndBounce (Num (pi / 5)) (Num (1 / 2)) False =
     Inr \<lparr>mass = Num 1, stiffness = Num 100, damping = Num (- 9), duration = Num (pi / 5),
          bounce = Num (1 / 2), properties = [''transform''], useBezier = False\<rparr>"
    unfolding fromDurationAndBounce_def
    by (subst ctor_else)
       (simp_all add: empty_config_def init_fields set_display_def fresh_def)
  have S: "0 < (20 * pi / 7)\<^sup>2" using p2 by simp
  have raw: "fromPhysics (Num 1) (Num ((20 * pi / 7)\<^sup>2)) (Num (1 - 16 * pi / 7)) False =
     Inr \<lparr>mass = Num 1, stiffness = Num ((20 * pi / 7)\<^sup>2), damping = Num (1 - 16 * pi / 7),
          duration = Num (2 * pi / sqrt ((20 * pi / 7)\<^sup>2 / 1)),
          bounce = Num ((2 * sqrt (1 * (20 * pi / 7)\<^sup>2) - (1 - 16 * pi / 7)) /
                        (2 * sqrt (1 * (20 * pi / 7)\<^sup>2))),
          properties = [''transform''], useBezier = False\<rparr>"
    unfolding fromPhysics_def
    by (rule trans [OF ctor_physics [of _ 1 "(20 * pi / 7)\<^sup>2" "1 - 16 * pi / 7"]])
       (use S in \<open>simp_all add: empty_config_def\<close>)
  have r: "sqrt ((20 * pi / 7)\<^sup>2) = 20 * pi / 7" using p2 by simp
  have dur: "2 * pi / sqrt ((20 * pi / 7)\<^sup>2 / 1) = 0.7"
    unfolding div_by_1 r using p2 by simp
  have bnc: "(2 * sqrt (1 * (20 * pi / 7)\<^sup>2) - (1 - 16 * pi / 7)) /
      (2 * sqrt (1 * (20 * pi / 7)\<^sup>2)) = 7 / 5 - 7 / (40 * pi)"
    unfolding mult_1 r using p2 by (simp add: field_simps)
  have again: "fromPhysics (Num 1) (Num ((20 * pi / 7)\<^sup>2)) (Num (1 - 16 * pi / 7)) False =
     Inr \<lparr>mass = Num 1, stiffness = Num ((20 * pi / 7)\<^sup>2), damping = Num (1 - 16 * pi / 7),
          duration = Num 0.7, bounce = Num (7 / 5 - 7 / (40 * pi)),
          properties = [''transform''], useBezier = False\<rparr>"
    unfolding raw dur bnc ..
  have "7 / (40 * pi) \<le> 7 / (40 * 2)"
    using p2 by (intro divide_left_mono) simp_all
  then have above: "1 < 7 / 5 - 7 / (40 * pi)" by simp
  show ?thesis
    using derived rederived bouncy_model again above by simp
qed

section \<open>Boundedness and decay\<close>

text \<open>With a damping that is not negative, the oscillating regime stays within \<open>[-1, 1]\<close>
  for \<open>t \<ge> 0\<close>; with real roots the other regime is positive, so it never reaches \<open>0\<close>.\<close>

lemma underdamped_bounded:
  assumes "mass this = Num M" "stiffness this = Num S" "damping this = Num D"
    "duration this = Num d" "bounce this = Num b"
    and "0 < M" "0 < S" "0 < d" "0 < b"
    and "0 \<le> D" "(D / (2 * sqrt (M * S)))\<^sup>2 \<le> 1" "0 \<le> t"
  shows "\<exists>v. calculateSpringValue this (Num t) = Num v \<and> \<bar>v\<bar> \<le> 1"
proof -
  define x where "x = D / (2 * sqrt (M * S)) * sqrt (S / M) * (t / d)"
  define y where "y = sqrt (S / M) * sqrt (1 - (D / (2 * sqrt (M * S)))\<^sup>2) * (t / d)"
  have "d \<noteq> 0" using assms by simp
  from calc_under [OF assms(1-7) this assms(9), of t] assms(11)
  have v: "calculateSpringValue this (Num t) = Num (exp (- x) * cos y)"
    by (simp add: x_def y_def)
  have "0 \<le> x" using assms by (simp add: x_def)
  then have "exp (- x) \<le> 1" by simp
  moreover have "\<bar>cos y\<bar> \<le> 1" by (rule abs_cos_le_one)
  ultimately have "\<bar>exp (- x) * cos y\<bar> \<le> 1 * 1"
    unfolding abs_mult by (intro mult_mono) simp_all
  then show ?thesis using v by simp
qed

lemma overdamped_positive:
  assumes "damping this = Num D" "stiffness this = Num S"
    "duration this = Num d" "bounce this = Num b"
    and "d \<noteq> 0" "b \<le> 0" "4 * S \<le> D\<^sup>2"
  shows "\<exists>v. calculateSpringValue this (Num t) = Num v \<and> 0 < v"
proof -
  define x where "x = - (D + sqrt (D\<^sup>2 - 4 * S)) * (t / d)"
  define y where "y = - (D - sqrt (D\<^sup>2 - 4 * S)) * (t / d)"
  from calc_over [OF assms(1-6), of t] assms(7)
  have "calculateSpringValue this (Num t) = Num ((exp x + exp y) / 2)"
    by (simp add: x_def y_def)
  moreover have "0 < (exp x + exp y) / 2"
    by (simp add: add_pos_pos)
  ultimately show ?thesis by blast
qed

text \<open>An envelope that grows passes every bound at the crests of the cosine.\<close>

lemma growing_cosine_unbounded:
  fixes c w B :: real
  assumes "0 < c" "0 < w"
  shows "\<exists>t\<ge>0. B < exp (c * t) * cos (w * t)"
proof -
  obtain n :: nat where n: "B * w / (2 * pi * c) < real n"
    using reals_Archimedean2 by blast
  define t where "t = 2 * real n * pi / w"
  have t0: "0 \<le> t" using assms by (simp add: t_def)
  have "w * t = 2 * real n * pi" using assms by (simp add: t_def)
  then have cos1: "cos (w * t) = 1" by simp
  have "B * w < real n * (2 * pi * c)"
    using n assms by (simp add: pos_divide_less_eq)
  then have "B < c * t"
    using assms by (simp add: t_def pos_less_divide_eq mult_ac)
  also have "\<dots> < exp (c * t)"
    using exp_ge_add_one_self [of "c * t"] by linarith
  finally show ?thesis using t0 cos1 by auto
qed

lemma negative_damping_unbounded:
  assumes f: "mass this = Num M" "stiffness this = Num S" "damping this = Num D"
    "duration this = Num d" "bounce this = Num b"
    and pos: "0 < M" "0 < S" "0 < d" "0 < b"
    and neg: "D < 0" and z: "(D / (2 * sqrt (M * S)))\<^sup>2 < 1"
  shows "\<exists>t\<ge>0. \<exists>v>B. calculateSpringValue this (Num t) = Num v"
proof -
  define \<zeta> where "\<zeta> = D / (2 * sqrt (M * S))"
  define c where "c = - \<zeta> * sqrt (S / M) / d"
  define w where "w = sqrt (S / M) * sqrt (1 - \<zeta>\<^sup>2) / d"
  have "\<zeta> < 0" using pos neg by (simp add: \<zeta>_def divide_neg_pos)
  moreover have "0 < sqrt (S / M)" using pos by simp
  ultimately have "0 < (- \<zeta>) * sqrt (S / M)" by (intro mult_pos_pos) simp_all
  then have c: "0 < c" unfolding c_def using pos by (intro divide_pos_pos)
  have "0 < sqrt (1 - \<zeta>\<^sup>2)" using z by (simp add: \<zeta>_def)
  then have w: "0 < w" using pos \<open>0 < sqrt (S / M)\<close> by (simp add: w_def)
  obtain t where t: "0 \<le> t" "B < exp (c * t) * cos (w * t)"
    using growing_cosine_unbounded [OF c w] by blast
  have "d \<noteq> 0" using pos by simp
  from calc_under [OF f pos(1,2) this pos(4), of t] z
  have "calculateSpringValue this (Num t) =
      Num (exp (- \<zeta> * sqrt (S / M) * (t / d)) * cos (sqrt (S / M) * sqrt (1 - \<zeta>\<^sup>2) * (t / d)))"
    by (simp add: \<zeta>_def)
  also have "- \<zeta> * sqrt (S / M) * (t / d) = c * t" by (simp add: c_def)
  also have "sqrt (S / M) * sqrt (1 - \<zeta>\<^sup>2) * (t / d) = w * t" by (simp add: w_def)
  finally show ?thesis using t by blast
qed

text \<open>
  C5. For \<open>bounce \<le> 0\<close> the value is to decay monotonically to the settled value without
  crossing it, and for \<open>bounce > 0\<close> it is to stay bounded for all \<open>t \<ge> 0\<close>. The preset
  \<open>bouncy\<close> has the damping \<open>1 - 16 pi / 7 < 0\<close>, so the envelope
  \<open>exp (- \<zeta> \<omega> t')\<close> grows and the value passes every bound. The preset \<open>flattened\<close>
  has \<open>damping\<^sup>2 < 4 * stiffness\<close>, so its value is \<open>NaN\<close> at every time.
\<close>

theorem bouncy_diverges_flattened_NaN:
  "(\<exists>this. Spring_constructor (Str ''bouncy'') = Inr this \<and> jlt (Num 0) (bounce this) \<and>
      (\<forall>B. \<exists>t\<ge>0. \<exists>v>B. calculateSpringValue this (Num t) = Num v)) \<and>
   (\<exists>this. Spring_constructor (Str ''flattened'') = Inr this \<and> jle (bounce this) (Num 0) \<and>
      (\<forall>t. calculateSpringValue this (Num t) = NaN))"
proof -
  let ?bouncy = "\<lparr>mass = Num 1, stiffness = Num ((20 * pi / 7)\<^sup>2),
      damping = Num (1 - 16 * pi / 7), duration = Num 0.7, bounce = Num 0.4,
      properties = [''transform''], useBezier = False\<rparr>"
  let ?flattened = "\<lparr>mass = Num 1, stiffness = Num ((5 * pi)\<^sup>2),
      damping = Num (10 * pi / (1 - 2 * pi)), duration = Num 0.4, bounce = Num (- 0.2),
      properties = [''transform''], useBezier = False\<rparr>"
  have p2: "2 \<le> pi" by (rule pi_ge_two)
  have diverges: "\<exists>t\<ge>0. \<exists>v>B. calculateSpringValue ?bouncy (Num t) = Num v" for B
  proof (rule negative_damping_unbounded [of _ 1 "(20 * pi / 7)\<^sup>2" "1 - 16 * pi / 7" "0.7" "0.4"])
    show "1 - 16 * pi / 7 < 0" using p2 by simp
    have "\<bar>(1 - 16 * pi / 7) / (2 * (20 * pi / 7))\<bar> < 1"
      using p2 by (simp add: abs_if field_simps)
    then show "((1 - 16 * pi / 7) / (2 * sqrt (1 * (20 * pi / 7)\<^sup>2)))\<^sup>2 < 1"
      using p2 by (simp add: abs_square_less_1)
  qed simp_all
  have nan: "calculateSpringValue ?flattened (Num t) = NaN" for t
  proof -
    have one: "1 < (2 * pi - 1)\<^sup>2"
      using p2 by (intro one_less_power) simp_all
    have "(10 * pi / (1 - 2 * pi))\<^sup>2 = (10 * pi)\<^sup>2 / (2 * pi - 1)\<^sup>2"
      by (simp add: power_divide power2_commute)
    also have "\<dots> < (10 * pi)\<^sup>2 / 1"
      using one p2 by (intro divide_strict_left_mono) simp_all
    finally have "(10 * pi / (1 - 2 * pi))\<^sup>2 < 4 * (5 * pi)\<^sup>2"
      by (simp add: power2_eq_square)
    then show ?thesis
      by (subst calc_over [of _ "10 * pi / (1 - 2 * pi)" "(5 * pi)\<^sup>2" "0.4" "- 0.2"]) simp_all
  qed
  show ?thesis
    unfolding bouncy_model flattened_model using diverges nan by simp
qed

end
